theory Spec2Isabelle
  imports Complex_Main
begin

section \<open>nanslice/util.py: the slice compositor and its helpers\<close>

text \<open>
  The module composes 2D slices through 3D volumes.  Arrays of floats are modelled as
  lists of reals (a 2D grid of samples is the list of its pixels in row-major order);
  the comparisons and branches the claims are about do not depend on rounding.
\<close>

subsection \<open>Data\<close>

text \<open>
  A sampled scalar field is a float array; comparing it with a threshold
  (\<^verbatim>\<open>sl_color > thresh\<close>) gives a boolean array.  Both kinds reach
  \<^verbatim>\<open>image.mask\<close> and \<^verbatim>\<open>image.blend\<close>, so a field keeps its dtype.
\<close>

datatype field = Scalars "real list" | Bools "bool list"

text \<open>The namedtuple \<^verbatim>\<open>Options\<close> (util.py line 27), fields in the source's order.\<close>

record options =
  interp_order :: int
  color_map :: string
  color_lims :: "real \<times> real"
  color_scale :: real
  color_mask_thresh :: "real option"
  alpha_lims :: "real \<times> real"

text \<open>
  The slice object \<^verbatim>\<open>sl\<close> (class Slice of slice.py, not part of util.py): util.py only
  calls \<^verbatim>\<open>sl.sample(img, order)\<close> and reads \<^verbatim>\<open>sl.extent\<close>, so both are taken as they
  come.  \<^typ>\<open>'vol\<close> is the type of a loaded volume.
\<close>

record 'vol slice =
  sample :: "'vol \<Rightarrow> int \<Rightarrow> real list"
  extent :: "real \<times> real \<times> real \<times> real"

text \<open>
  The module \<^verbatim>\<open>image\<close> (image.py, imported by util.py): the four functions util.py
  calls, taken as parameters.  \<^typ>\<open>'rgb\<close> is the type of an RGB raster.
\<close>

record 'rgb image_module =
  colorize :: "real list \<Rightarrow> string \<Rightarrow> real \<times> real \<Rightarrow> 'rgb"
  mask_image :: "'rgb \<Rightarrow> field \<Rightarrow> 'rgb"
  scale_clip :: "real list \<Rightarrow> real \<times> real \<Rightarrow> real list"
  blend :: "'rgb \<Rightarrow> 'rgb \<Rightarrow> field \<Rightarrow> 'rgb"

subsection \<open>Python truthiness\<close>

text \<open>
  \<^verbatim>\<open>if options.color_mask_thresh:\<close> tests an optional float for truthiness:
  \<^verbatim>\<open>None\<close> and \<^verbatim>\<open>0.0\<close> are both false.
\<close>

definition truthy_thresh :: "real option \<Rightarrow> bool" where
  "truthy_thresh t = (case t of None \<Rightarrow> False | Some x \<Rightarrow> x \<noteq> 0)"

text \<open>
  \<^verbatim>\<open>if img_color:\<close> tests a volume argument that is either an image object (true: the
  image classes define neither \<^verbatim>\<open>__bool__\<close> nor \<^verbatim>\<open>__len__\<close>) or \<^verbatim>\<open>None\<close>; a
  volume argument is an \<^typ>\<open>'vol option\<close>.
\<close>

subsection \<open>Array operations used by \<^verbatim>\<open>overlay_slice\<close>\<close>

definition scale_by :: "real list \<Rightarrow> real \<Rightarrow> real list" where
  \<comment> \<open>\<^verbatim>\<open>array * scalar\<close>\<close>
  "scale_by xs c = map (\<lambda>x. x * c) xs"

definition greater_than :: "real list \<Rightarrow> real \<Rightarrow> bool list" where
  \<comment> \<open>\<^verbatim>\<open>array > scalar\<close>\<close>
  "greater_than xs t = map (\<lambda>x. x > t) xs"

definition less_than :: "real list \<Rightarrow> real \<Rightarrow> bool list" where
  \<comment> \<open>\<^verbatim>\<open>array < scalar\<close>\<close>
  "less_than xs t = map (\<lambda>x. x < t) xs"

definition ones_like :: "real list \<Rightarrow> real list" where
  \<comment> \<open>\<^verbatim>\<open>np.ones_like(array)\<close>\<close>
  "ones_like xs = map (\<lambda>_. 1) xs"

definition any_true :: "bool list \<Rightarrow> bool" where
  \<comment> \<open>\<^verbatim>\<open>array.any()\<close>\<close>
  "any_true bs = list_ex (\<lambda>b. b) bs"

subsection \<open>\<^verbatim>\<open>overlay_slice\<close> (util.py lines 30 to 62)\<close>

text \<open>
  The value of the local variable \<^verbatim>\<open>sl_color_mask\<close> after lines 39 to 46, from the
  scaled colour samples \<^verbatim>\<open>sl_color\<close> of line 38.
\<close>

definition sl_color_mask ::
  "'vol slice \<Rightarrow> options \<Rightarrow> real list \<Rightarrow> 'vol option \<Rightarrow> field" where
  "sl_color_mask sl opts sl_color img_color_mask =
     (case img_color_mask of
        Some cm \<Rightarrow>
          (let m = sample sl cm (interp_order opts) in
           if truthy_thresh (color_mask_thresh opts)
           then Bools (greater_than m (the (color_mask_thresh opts)))
           else Scalars m)
      | None \<Rightarrow>
          if truthy_thresh (color_mask_thresh opts)
          then Bools (greater_than sl_color (the (color_mask_thresh opts)))
          else Scalars (ones_like sl_color))"

text \<open>
  The local variables of lines 35, 38 and 47 to 48: the grey base layer, the scaled
  colour samples, and the colourised, masked colour layer (the source reuses the name
  \<^verbatim>\<open>sl_color\<close> for it).
\<close>

definition sl_base ::
  "'rgb image_module \<Rightarrow> 'vol slice \<Rightarrow> options \<Rightarrow> real \<times> real \<Rightarrow> 'vol \<Rightarrow> 'rgb" where
  "sl_base img sl opts window img_base =
     colorize img (sample sl img_base (interp_order opts)) ''gray'' window"

definition sl_color :: "'vol slice \<Rightarrow> options \<Rightarrow> 'vol \<Rightarrow> real list" where
  "sl_color sl opts c = scale_by (sample sl c (interp_order opts)) (color_scale opts)"

definition sl_color_masked ::
  "'rgb image_module \<Rightarrow> 'vol slice \<Rightarrow> options \<Rightarrow> 'vol \<Rightarrow> 'vol option \<Rightarrow> 'rgb" where
  "sl_color_masked img sl opts c img_color_mask =
     mask_image img (colorize img (sl_color sl opts c) (color_map opts) (color_lims opts))
       (sl_color_mask sl opts (sl_color sl opts c) img_color_mask)"

text \<open>The value of the local variable \<^verbatim>\<open>sl_blend\<close> after lines 35 to 56.\<close>

definition sl_blend ::
  "'rgb image_module \<Rightarrow> 'vol slice \<Rightarrow> options \<Rightarrow> real \<times> real \<Rightarrow>
   'vol \<Rightarrow> 'vol option \<Rightarrow> 'vol option \<Rightarrow> 'vol option \<Rightarrow> 'rgb" where
  "sl_blend img sl opts window img_base img_color img_color_mask img_alpha =
     (case img_color of
        Some c \<Rightarrow>
          (case img_alpha of
             Some a \<Rightarrow>
               (let sl_alpha = sample sl a (interp_order opts);
                    sl_scaled_alpha = scale_clip img sl_alpha (alpha_lims opts) in
                blend img (sl_base img sl opts window img_base)
                  (sl_color_masked img sl opts c img_color_mask) (Scalars sl_scaled_alpha))
           | None \<Rightarrow>
               blend img (sl_base img sl opts window img_base)
                 (sl_color_masked img sl opts c img_color_mask)
                 (sl_color_mask sl opts (sl_color sl opts c) img_color_mask))
      | None \<Rightarrow> sl_base img sl opts window img_base)"

text \<open>Lines 57 to 62: the final mask over the blended layers.\<close>

definition overlay_slice ::
  "'rgb image_module \<Rightarrow> 'vol slice \<Rightarrow> options \<Rightarrow> real \<times> real \<Rightarrow>
   'vol \<Rightarrow> 'vol option \<Rightarrow> 'vol option \<Rightarrow> 'vol option \<Rightarrow> 'vol option \<Rightarrow> 'rgb" where
  "overlay_slice img sl opts window img_base img_mask img_color img_color_mask img_alpha =
     (case img_mask of
        Some m \<Rightarrow>
          mask_image img
            (sl_blend img sl opts window img_base img_color img_color_mask img_alpha)
            (Scalars (sample sl m (interp_order opts)))
      | None \<Rightarrow> sl_blend img sl opts window img_base img_color img_color_mask img_alpha)"

subsection \<open>The colour mask as the specification words it\<close>

text \<open>
  Section 4.3, step 2, read literally: a threshold that is given binarizes, whatever
  its value; the sampled mask volume comes first, the colour field second, all-ones
  last.  It is compared with \<open>sl_color_mask\<close> below.
\<close>

definition color_mask_policy ::
  "'vol slice \<Rightarrow> options \<Rightarrow> real list \<Rightarrow> 'vol option \<Rightarrow> field" where
  "color_mask_policy sl opts col img_color_mask =
     (case img_color_mask of
        Some cm \<Rightarrow>
          (case color_mask_thresh opts of
             Some t \<Rightarrow> Bools (greater_than (sample sl cm (interp_order opts)) t)
           | None \<Rightarrow> Scalars (sample sl cm (interp_order opts)))
      | None \<Rightarrow>
          (case color_mask_thresh opts of
             Some t \<Rightarrow> Bools (greater_than col t)
           | None \<Rightarrow> Scalars (ones_like col)))"

subsection \<open>The image module as the specification describes it\<close>

type_synonym rgb = "real \<times> real \<times> real"

text \<open>
  A field used as a weight: a boolean array counts as 0 and 1 in numpy arithmetic.
\<close>

definition weights :: "field \<Rightarrow> real list" where
  "weights f = (case f of Scalars ws \<Rightarrow> ws | Bools bs \<Rightarrow> map (\<lambda>b. if b then 1 else 0) bs)"

definition normalize :: "real \<times> real \<Rightarrow> real \<Rightarrow> real" where
  \<comment> \<open>rescale \<open>lo\<close> to 0 and \<open>hi\<close> to 1, then clip to the unit interval\<close>
  "normalize lims x = min 1 (max 0 ((x - fst lims) / (snd lims - fst lims)))"

definition mix :: "real \<Rightarrow> rgb \<Rightarrow> rgb \<Rightarrow> rgb" where
  "mix a p q =
     (case p of (r, g, b) \<Rightarrow> case q of (r', g', b') \<Rightarrow>
        (r * (1 - a) + r' * a, g * (1 - a) + g' * a, b * (1 - a) + b' * a))"

text \<open>
  Modelled from the spec: \<^verbatim>\<open>image.colorize\<close> (image.py is not among the sources).
  Section 4.2: rescale so that \<open>limits[0]\<close> goes to 0 and \<open>limits[1]\<close> to 1, clip to
  [0,1], look each value up in the named colormap.  The colormap registry \<open>cmap\<close> is
  external and a parameter.
\<close>

definition colorize_spec ::
  "(string \<Rightarrow> real \<Rightarrow> rgb) \<Rightarrow> real list \<Rightarrow> string \<Rightarrow> real \<times> real \<Rightarrow> rgb list" where
  "colorize_spec cmap xs name lims = map (\<lambda>x. cmap name (normalize lims x)) xs"

text \<open>
  Modelled from the spec: \<^verbatim>\<open>image.mask\<close> (image.py is not among the sources).
  Section 4.2: where the mask is falsy or zero the pixel is replaced by the background
  \<open>back\<close>; where it is truthy the pixel is kept.
\<close>

definition mask_spec :: "rgb \<Rightarrow> rgb list \<Rightarrow> field \<Rightarrow> rgb list" where
  "mask_spec back ps m = map (\<lambda>(p, w). if w \<noteq> 0 then p else back) (zip ps (weights m))"

text \<open>
  Modelled from the spec: \<^verbatim>\<open>image.scale_clip\<close> (image.py is not among the sources).
  Section 4.2: rescale \<open>limits[0]\<close> to 0 and \<open>limits[1]\<close> to 1 and clip to [0,1].
\<close>

definition scale_clip_spec :: "real list \<Rightarrow> real \<times> real \<Rightarrow> real list" where
  "scale_clip_spec xs lims = map (normalize lims) xs"

text \<open>
  Modelled from the spec: \<^verbatim>\<open>image.blend\<close> (image.py is not among the sources).
  Section 4.2: per pixel \<open>result = base * (1 - alpha) + overlay * alpha\<close>, the alpha
  broadcast across the colour channels.
\<close>

definition blend_spec :: "rgb list \<Rightarrow> rgb list \<Rightarrow> field \<Rightarrow> rgb list" where
  "blend_spec base over alpha =
     map (\<lambda>(p, q, a). mix a p q) (zip base (zip over (weights alpha)))"

definition image_spec :: "(string \<Rightarrow> real \<Rightarrow> rgb) \<Rightarrow> rgb \<Rightarrow> rgb list image_module" where
  "image_spec cmap back =
     \<lparr>colorize = colorize_spec cmap, mask_image = mask_spec back,
      scale_clip = scale_clip_spec, blend = blend_spec\<rparr>"

subsection \<open>A concrete slice for evaluation\<close>

text \<open>
  For evaluating the definitions on concrete inputs: a volume that is already the list
  of its samples over the slice, a slice whose \<open>sample\<close> returns it, and a colormap
  that maps every name to grey levels.
\<close>

definition flat_slice :: "real list slice" where
  "flat_slice = \<lparr>sample = (\<lambda>v order. v), extent = (0, 1, 0, 1)\<rparr>"

definition grey_cmap :: "string \<Rightarrow> real \<Rightarrow> rgb" where
  "grey_cmap name v = (v, v, v)"

definition default_options :: options where
  \<comment> \<open>the defaults of \<^verbatim>\<open>common_options\<close>: order 1, RdYlBu_r, (-1, 1), scale 1, no threshold, (0.5, 1)\<close>
  "default_options =
     \<lparr>interp_order = 1, color_map = ''RdYlBu_r'', color_lims = (-1, 1), color_scale = 1,
      color_mask_thresh = None, alpha_lims = (1/2, 1)\<rparr>"

subsection \<open>\<^verbatim>\<open>draw_slice\<close> (util.py lines 64 to 75)\<close>

datatype py_error =
    IndexError | ValueError | TypeError | ArgumentError | RuntimeError | LinAlgError

text \<open>
  The calls \<^verbatim>\<open>draw_slice\<close> makes on the plotting axis, in the order it makes them:
  \<^verbatim>\<open>axis.imshow(sliced, origin='lower', extent=sl.extent, interpolation='none')\<close>,
  \<^verbatim>\<open>axis.axis('off')\<close> and
  \<^verbatim>\<open>axis.contour(sliced_contour, levels=contour_levels, ..., colors=contour_colors, linewidths=1)\<close>.
\<close>

datatype 'rgb draw_call =
    Imshow 'rgb "real \<times> real \<times> real \<times> real"
  | Axis_off
  | Contour "real list" "real list" "real \<times> real \<times> real \<times> real" string

text \<open>
  The result is the list of calls made on the axis and, when the function raised, the
  exception.  \<^verbatim>\<open>contour_levels[0]\<close> raises IndexError on an empty sequence; the
  default is \<^verbatim>\<open>(0.95,)\<close>.  The second operand of \<^verbatim>\<open>and\<close> is only evaluated when the
  first is true.
\<close>

definition draw_slice ::
  "'rgb image_module \<Rightarrow> 'vol slice \<Rightarrow> options \<Rightarrow> real \<times> real \<Rightarrow>
   'vol \<Rightarrow> 'vol option \<Rightarrow> 'vol option \<Rightarrow> 'vol option \<Rightarrow> 'vol option \<Rightarrow>
   'vol option \<Rightarrow> real list \<Rightarrow> string \<Rightarrow> 'rgb draw_call list \<times> py_error option" where
  "draw_slice img sl opts window base msk color_img color_mask alpha_img
     contour_img contour_levels contour_colors =
     (let sliced = overlay_slice img sl opts window base msk color_img color_mask alpha_img;
          calls = [Imshow sliced (extent sl), Axis_off] in
      case contour_img of
        None \<Rightarrow> (calls, None)
      | Some ci \<Rightarrow>
          (let sliced_contour = sample sl ci 1 in
           case contour_levels of
             [] \<Rightarrow> (calls, Some IndexError)
           | level # _ \<Rightarrow>
               if any_true (less_than sliced_contour level)
                  \<and> any_true (greater_than sliced_contour level)
               then (calls @ [Contour sliced_contour contour_levels (extent sl) contour_colors],
                     None)
               else (calls, None)))"

subsection \<open>\<^verbatim>\<open>center_of_mass\<close> (util.py lines 20 to 25)\<close>

text \<open>
  A 3D array is its shape and its elements by index.  A volume has its data and its
  affine, a matrix given by its rows (4 rows of 4 for a loaded image).
\<close>

record array3 =
  shape :: "nat \<times> nat \<times> nat"
  elem :: "nat \<Rightarrow> nat \<Rightarrow> nat \<Rightarrow> real"

record volume =
  get_data :: array3
  affine :: "real list list"

text \<open>
  \<^verbatim>\<open>np.sum(a, axis=(1,2))\<close>, \<^verbatim>\<open>np.sum(a, axis=(0,2))\<close> and \<^verbatim>\<open>np.sum(a, axis=(0,1))\<close>.
  The sums are over the reals: numpy adds in the data's type, so it rounds on float
  data and wraps on integer data.  A sum of zeros and a single other term, the only kind
  the property below is about, is the same in all three.
\<close>

definition sum_axes_12 :: "array3 \<Rightarrow> real list" where
  "sum_axes_12 a =
     (case shape a of (n0, n1, n2) \<Rightarrow>
        map (\<lambda>i. sum_list (map (\<lambda>j. sum_list (map (\<lambda>k. elem a i j k) [0..<n2])) [0..<n1]))
          [0..<n0])"

definition sum_axes_02 :: "array3 \<Rightarrow> real list" where
  "sum_axes_02 a =
     (case shape a of (n0, n1, n2) \<Rightarrow>
        map (\<lambda>j. sum_list (map (\<lambda>i. sum_list (map (\<lambda>k. elem a i j k) [0..<n2])) [0..<n0]))
          [0..<n1])"

definition sum_axes_01 :: "array3 \<Rightarrow> real list" where
  "sum_axes_01 a =
     (case shape a of (n0, n1, n2) \<Rightarrow>
        map (\<lambda>k. sum_list (map (\<lambda>i. sum_list (map (\<lambda>j. elem a i j k) [0..<n1])) [0..<n0]))
          [0..<n2])"

text \<open>
  \<^verbatim>\<open>np.argmax\<close>: the index of the first occurrence of the maximum; ValueError on an
  empty array.  The loop keeps the best index and value seen so far.
\<close>

fun argmax_from :: "real list \<Rightarrow> nat \<Rightarrow> nat \<Rightarrow> real \<Rightarrow> nat" where
  "argmax_from [] i best bv = best"
| "argmax_from (x # xs) i best bv =
     (if x > bv then argmax_from xs (Suc i) i x else argmax_from xs (Suc i) best bv)"

definition argmax :: "real list \<Rightarrow> py_error + nat" where
  "argmax xs = (case xs of [] \<Rightarrow> Inl ValueError | x # rest \<Rightarrow> Inr (argmax_from rest 1 0 x))"

text \<open>
  \<^verbatim>\<open>np.dot(matrix, vector)\<close>: one component per row of the matrix; ValueError when a
  row and the vector differ in length.
\<close>

definition dot :: "real list list \<Rightarrow> real list \<Rightarrow> py_error + real list" where
  "dot m v =
     (if list_all (\<lambda>row. length row = length v) m
      then Inr (map (\<lambda>row. sum_list (map (\<lambda>(a, x). a * x) (zip row v))) m)
      else Inl ValueError)"

definition center_of_mass :: "volume \<Rightarrow> py_error + real list" where
  "center_of_mass img =
     (case argmax (sum_axes_12 (get_data img)) of
        Inl e \<Rightarrow> Inl e
      | Inr idx0 \<Rightarrow>
     (case argmax (sum_axes_02 (get_data img)) of
        Inl e \<Rightarrow> Inl e
      | Inr idx1 \<Rightarrow>
     (case argmax (sum_axes_01 (get_data img)) of
        Inl e \<Rightarrow> Inl e
      | Inr idx2 \<Rightarrow> dot (affine img) [real idx0, real idx1, real idx2, 1])))"

text \<open>
  The physical-space coordinate of the voxel with index \<open>(i, j, k)\<close>: the 3-vector
  \<open>R (i, j, k) + t\<close>, where \<open>R\<close> is the upper left 3 by 3 block of the affine and
  \<open>t\<close> the first three entries of its last column (as \<^verbatim>\<open>sample_point\<close> splits it).
\<close>

definition voxel_to_physical :: "real list list \<Rightarrow> nat \<times> nat \<times> nat \<Rightarrow> real list" where
  "voxel_to_physical m idx =
     (case idx of (i, j, k) \<Rightarrow>
        map (\<lambda>row. row ! 0 * real i + row ! 1 * real j + row ! 2 * real k + row ! 3) (take 3 m))"

text \<open>An array whose only nonzero element is \<open>v\<close> at index \<open>(a, b, c)\<close>.\<close>

definition single_voxel :: "nat \<times> nat \<times> nat \<Rightarrow> nat \<times> nat \<times> nat \<Rightarrow> real \<Rightarrow> array3" where
  "single_voxel shp idx v =
     \<lparr>shape = shp, elem = (\<lambda>i j k. if (i, j, k) = idx then v else 0)\<rparr>"

text \<open>
  For evaluation: a 2 by 2 by 2 volume whose only nonzero voxel is 5 at index (1, 0, 1),
  with voxels of size 2 and the origin at (10, 20, 30).
\<close>

definition example_volume :: volume where
  "example_volume =
     \<lparr>get_data = single_voxel (2, 2, 2) (1, 0, 1) 5,
      affine = [[2, 0, 0, 10], [0, 2, 0, 20], [0, 0, 2, 30], [0, 0, 0, 1]]\<rparr>"

subsection \<open>\<^verbatim>\<open>common_options\<close> (util.py lines 191 to 239)\<close>

text \<open>
  The part of the standard module \<^verbatim>\<open>argparse\<close> that \<^verbatim>\<open>common_options\<close> uses.  A keyword
  argument is a name and a value; a parser is its description and the arguments added
  so far.
\<close>

datatype py_value = Str string | Ty string | Num real | Tup "py_value list"

type_synonym kwargs = "(string \<times> py_value) list"

record parser =
  description :: string
  arguments :: "(string \<times> kwargs) list"

text \<open>
  \<^verbatim>\<open>add_argument\<close> hands its keyword arguments to the constructor of the action class
  (the store action by default, the append action for \<^verbatim>\<open>action='append'\<close>); both
  accept exactly these keywords besides the option strings, and Python raises TypeError
  for any other.  An option string (a name that starts with \<^verbatim>\<open>-\<close>) added twice is an
  ArgumentError; a positional name may be added again.
\<close>

definition is_option_string :: "string \<Rightarrow> bool" where
  "is_option_string name = (case name of [] \<Rightarrow> False | ch # _ \<Rightarrow> ch = CHR ''-'')"

definition action_keywords :: "string list" where
  "action_keywords =
     [''action'', ''dest'', ''nargs'', ''const'', ''default'', ''type'', ''choices'',
      ''required'', ''help'', ''metavar'']"

definition add_argument :: "parser \<Rightarrow> string \<Rightarrow> kwargs \<Rightarrow> py_error + parser" where
  "add_argument p name kw =
     (if \<not> list_all (\<lambda>k. k \<in> set action_keywords) (map fst kw) then Inl TypeError
      else if is_option_string name \<and> name \<in> set (map fst (arguments p))
      then Inl ArgumentError
      else Inr (p\<lparr>arguments := arguments p @ [(name, kw)]\<rparr>))"

text \<open>A run of \<^verbatim>\<open>parser.add_argument(...)\<close> statements: the first exception ends it.\<close>

fun add_arguments :: "parser \<Rightarrow> (string \<times> kwargs) list \<Rightarrow> py_error + parser" where
  "add_arguments p [] = Inr p"
| "add_arguments p ((name, kw) # rest) =
     (case add_argument p name kw of
        Inl e \<Rightarrow> Inl e
      | Inr p' \<Rightarrow> add_arguments p' rest)"

definition common_options_calls :: "(string \<times> kwargs) list" where
  "common_options_calls =
     [
      (''base_image'',
        [(''help'', Str ''Base (structural image)''),
         (''type'', Ty ''str'')]),
      (''--mask'',
        [(''type'', Ty ''str''),
         (''help'', Str ''Mask image'')]),
      (''--color'',
        [(''type'', Ty ''str''),
         (''help'', Str ''Add color overlay'')]),
      (''--color_lims'',
        [(''type'', Ty ''float''),
         (''noptions'', Num 2),
         (''default'', Tup [Num (-1), Num 1]),
         (''help'', Str ''Colormap window, default=-1 1'')]),
      (''--color_mask'',
        [(''type'', Ty ''str''),
         (''help'', Str ''Mask color image'')]),
      (''--color_mask_thresh'',
        [(''type'', Ty ''float''),
         (''help'', Str ''Color mask threshold'')]),
      (''--color_scale'',
        [(''type'', Ty ''float''),
         (''default'', Num 1),
         (''help'', Str ''Multiply color image by value, default=1'')]),
      (''--color_map'',
        [(''type'', Ty ''str''),
         (''default'', Str ''RdYlBu_r''),
         (''help'', Str ''Colormap to use from Matplotlib, default = RdYlBu_r'')]),
      (''--color_label'',
        [(''type'', Ty ''str''),
         (''default'', Str ''% Change''),
         (''help'', Str ''Label for color axis'')]),
      (''--alpha'',
        [(''type'', Ty ''str''),
         (''help'', Str ''Image for transparency-coding of overlay'')]),
      (''--alpha_lims'',
        [(''type'', Ty ''float''),
         (''noptions'', Num 2),
         (''default'', Tup [Num (1/2), Num 1]),
         (''help'', Str ''Alpha/transparency window, default=0.5 1.0'')]),
      (''--alpha_label'',
        [(''type'', Ty ''str''),
         (''default'', Str ''1-p''),
         (''help'', Str ''Label for alpha/transparency axis'')]),
      (''--contour_img'',
        [(''type'', Ty ''str''),
         (''help'', Str ''Image to define contour (if none, use alpha image)'')]),
      (''--contour'',
        [(''type'', Ty ''float''),
         (''action'', Str ''append''),
         (''help'', Str ''Add an alpha image contour (can be multiple)'')]),
      (''--contour_color'',
        [(''type'', Ty ''str''),
         (''action'', Str ''append''),
         (''help'', Str ''Choose contour colour'')]),
      (''--contour_style'',
        [(''type'', Ty ''str''),
         (''action'', Str ''append''),
         (''help'', Str ''Choose contour line-style'')]),
      (''--window'',
        [(''type'', Ty ''float''),
         (''noptions'', Num 2),
         (''default'', Tup [Num 1, Num 99]),
         (''help'', Str ''Specify base image window (in percentiles)'')]),
      (''--samples'',
        [(''type'', Ty ''int''),
         (''default'', Num 128),
         (''help'', Str ''Number of samples for slicing, default=128'')]),
      (''--interp'',
        [(''type'', Ty ''str''),
         (''default'', Str ''hanning''),
         (''help'', Str ''Display interpolation mode, default=hanning'')]),
      (''--interp_order'',
        [(''type'', Ty ''int''),
         (''default'', Num 1),
         (''help'', Str ''Data interpolation order, default=1'')]),
      (''--orient'',
        [(''type'', Ty ''str''),
         (''default'', Str ''clin''),
         (''help'', Str ''Clinical (clin) or Pre-clinical (preclin) orientation'')])]"

definition common_options :: "py_error + parser" where
  "common_options =
     add_arguments \<lparr>description = ''Dual-coding viewer.'', arguments = []\<rparr>
       common_options_calls"

subsection \<open>\<^verbatim>\<open>sample_point\<close> (util.py lines 14 to 18)\<close>

text \<open>
  Whether \<^verbatim>\<open>sample_point\<close> lands on a voxel depends on the rounding of float64
  arithmetic, so the rounding is written out: every floating-point operation of lines
  15 to 17 is the exact operation followed by \<open>rnd\<close>.  With \<open>rnd\<close> the identity this
  is exact arithmetic; \<open>float64\<close> below is IEEE 754 binary64.

  A float64 is a rational with 53 significant bits.  \<open>bits n\<close> is the length of \<open>n\<close>
  in binary, \<open>exponent x\<close> the integer \<open>e\<close> with \<open>2^e \<le> |x| < 2^(e+1)\<close>, and
  \<open>float64 x\<close> the multiple of \<open>2^(e-52)\<close> nearest to \<open>x\<close>, ties going to the even
  multiple.  Overflow and subnormal numbers are left out.
\<close>

fun bits :: "nat \<Rightarrow> nat" where
  "bits n = (if n = 0 then 0 else Suc (bits (n div 2)))"

declare bits.simps [simp del]

definition exponent :: "real \<Rightarrow> int" where
  "exponent x =
     (if 1 \<le> \<bar>x\<bar> then int (bits (nat \<lfloor>\<bar>x\<bar>\<rfloor>)) - 1
      else - int (bits (nat (\<lceil>1 / \<bar>x\<bar>\<rceil> - 1))))"

definition round_half_even :: "real \<Rightarrow> int" where
  "round_half_even y =
     (let f = \<lfloor>y\<rfloor>; r = y - of_int f in
      if r < 1/2 then f else if 1/2 < r then f + 1 else if even f then f else f + 1)"

definition float64 :: "real \<Rightarrow> real" where
  "float64 x =
     (if x = 0 then 0
      else let e = exponent x in
        if 52 \<le> e then of_int (round_half_even (x / 2 ^ nat (e - 52))) * 2 ^ nat (e - 52)
        else of_int (round_half_even (x * 2 ^ nat (52 - e))) / 2 ^ nat (52 - e))"

text \<open>
  \<^verbatim>\<open>np.dot(matrix, vector)\<close> in rounded arithmetic: each row is multiplied with the
  vector term by term and the products are added from left to right.
\<close>

definition dot_row :: "(real \<Rightarrow> real) \<Rightarrow> real list \<Rightarrow> real list \<Rightarrow> real" where
  "dot_row rnd row v = foldl (\<lambda>acc (a, x). rnd (acc + rnd (a * x))) 0 (zip row v)"

definition dot_rounded ::
  "(real \<Rightarrow> real) \<Rightarrow> real list list \<Rightarrow> real list \<Rightarrow> py_error + real list" where
  "dot_rounded rnd m v =
     (if list_all (\<lambda>row. length row = length v) m
      then Inr (map (\<lambda>row. dot_row rnd row v) m)
      else Inl ValueError)"

text \<open>
  The determinant of a 3 by 3 matrix, and \<^verbatim>\<open>matrix.I\<close>, the inverse.  numpy solves
  for the inverse by LU factorisation and raises LinAlgError on a singular matrix; the
  model divides the cofactors by the determinant, rounding each operation.  In exact
  arithmetic both give the inverse.  In float64 they give the same matrix for a diagonal
  matrix (the reciprocals of the diagonal, rounded), which is the only kind evaluated in
  float64 below.
\<close>

definition det3 :: "(real \<Rightarrow> real) \<Rightarrow> real list list \<Rightarrow> real" where
  "det3 rnd m =
     (case m of
        [[a, b, c], [d, e, f], [g, h, i]] \<Rightarrow>
          rnd (rnd (rnd (a * rnd (rnd (e * i) - rnd (f * h)))
                    + rnd (b * rnd (rnd (f * g) - rnd (d * i))))
               + rnd (c * rnd (rnd (d * h) - rnd (e * g))))
      | _ \<Rightarrow> 0)"

definition matrix_inverse ::
  "(real \<Rightarrow> real) \<Rightarrow> real list list \<Rightarrow> py_error + real list list" where
  "matrix_inverse rnd m =
     (case m of
        [[a, b, c], [d, e, f], [g, h, i]] \<Rightarrow>
          (let dt = det3 rnd m in
           if dt = 0 then Inl LinAlgError
           else Inr
             [[rnd (rnd (rnd (e * i) - rnd (f * h)) / dt),
               rnd (rnd (rnd (c * h) - rnd (b * i)) / dt),
               rnd (rnd (rnd (b * f) - rnd (c * e)) / dt)],
              [rnd (rnd (rnd (f * g) - rnd (d * i)) / dt),
               rnd (rnd (rnd (a * i) - rnd (c * g)) / dt),
               rnd (rnd (rnd (c * d) - rnd (a * f)) / dt)],
              [rnd (rnd (rnd (d * h) - rnd (e * g)) / dt),
               rnd (rnd (rnd (b * g) - rnd (a * h)) / dt),
               rnd (rnd (rnd (a * e) - rnd (b * d)) / dt)]])
      | _ \<Rightarrow> Inl LinAlgError)"

text \<open>
  Lines 15 to 17: \<open>scale\<close> is the inverse of the upper left 3 by 3 block of the affine,
  \<open>offset\<close> is \<open>-scale\<close> times the first three entries of the last column, and the
  voxel coordinate \<^verbatim>\<open>s_point\<close> of a point is \<open>scale\<close> times the point, plus
  \<open>offset\<close>.
\<close>

definition voxel_coordinates ::
  "(real \<Rightarrow> real) \<Rightarrow> real list list \<Rightarrow> real list \<Rightarrow> py_error + real list" where
  "voxel_coordinates rnd aff point =
     (case matrix_inverse rnd (map (take 3) (take 3 aff)) of
        Inl err \<Rightarrow> Inl err
      | Inr scale \<Rightarrow>
     (case dot_rounded rnd (map (map uminus) scale) (map (\<lambda>row. row ! 3) (take 3 aff)) of
        Inl err \<Rightarrow> Inl err
      | Inr offset \<Rightarrow>
     (case dot_rounded rnd scale point of
        Inl err \<Rightarrow> Inl err
      | Inr scaled \<Rightarrow> Inr (map (\<lambda>(x, off). rnd (x + off)) (zip scaled offset)))))"

text \<open>
  \<^verbatim>\<open>map_coordinates(data, s_point, order=1)\<close> of scipy for one point of a 3D array, in
  its default mode \<^verbatim>\<open>constant\<close> with \<^verbatim>\<open>cval=0.0\<close>: a coordinate below 0 or above the
  last index of its axis gives 0; otherwise the result is the linear interpolation of
  the eight voxels around the point, a voxel beyond the array counting as 0.  The
  result is an array of one value.  The interpolation itself is over the reals: at an
  integral coordinate the weights are 0 and 1, and float64 gives the same value.
\<close>

definition outside :: "real \<Rightarrow> nat \<Rightarrow> bool" where
  "outside x n = (x < 0 \<or> real n - 1 < x)"

definition weight :: "real \<Rightarrow> nat \<Rightarrow> real" where
  "weight x d = (if d = 0 then 1 - frac x else frac x)"

definition voxel_or_cval :: "array3 \<Rightarrow> int \<Rightarrow> int \<Rightarrow> int \<Rightarrow> real" where
  "voxel_or_cval a i j k =
     (case shape a of (n0, n1, n2) \<Rightarrow>
        if 0 \<le> i \<and> i < int n0 \<and> 0 \<le> j \<and> j < int n1 \<and> 0 \<le> k \<and> k < int n2
        then elem a (nat i) (nat j) (nat k) else 0)"

definition map_coordinates :: "array3 \<Rightarrow> real list \<Rightarrow> py_error + real list" where
  "map_coordinates a coords =
     (case coords of
        [x, y, z] \<Rightarrow>
          (case shape a of (n0, n1, n2) \<Rightarrow>
             if outside x n0 \<or> outside y n1 \<or> outside z n2 then Inr [0]
             else Inr
               [sum_list
                  (map (\<lambda>(di, dj, dk).
                          weight x di * weight y dj * weight z dk
                          * voxel_or_cval a (\<lfloor>x\<rfloor> + int di) (\<lfloor>y\<rfloor> + int dj) (\<lfloor>z\<rfloor> + int dk))
                     [(di, dj, dk). di \<leftarrow> [0, 1], dj \<leftarrow> [0, 1], dk \<leftarrow> [0, 1]])])
      | _ \<Rightarrow> Inl RuntimeError)"

text \<open>
  \<^verbatim>\<open>sample_point(img, point)\<close> at its default \<^verbatim>\<open>order=1\<close>.  \<^verbatim>\<open>squeeze()\<close> drops every
  axis of length 1, and \<^verbatim>\<open>map_coordinates\<close> raises RuntimeError when the three
  coordinates meet an array of fewer axes.
\<close>

definition sample_point ::
  "(real \<Rightarrow> real) \<Rightarrow> volume \<Rightarrow> real list \<Rightarrow> py_error + real list" where
  "sample_point rnd img point =
     (case voxel_coordinates rnd (affine img) point of
        Inl err \<Rightarrow> Inl err
      | Inr s_point \<Rightarrow>
          (case shape (get_data img) of (n0, n1, n2) \<Rightarrow>
             if n0 = 1 \<or> n1 = 1 \<or> n2 = 1 then Inl RuntimeError
             else map_coordinates (get_data img) s_point))"

text \<open>
  For evaluation: four voxels of size 0.1 along the first axis, the origin at 0, and the
  value 5 in the last voxel (3, 0, 0).  The size is the float64 nearest to 0.1.
\<close>

definition tenth_volume :: volume where
  "tenth_volume =
     \<lparr>get_data = single_voxel (4, 2, 2) (3, 0, 0) 5,
      affine = [[3602879701896397 / 36028797018963968, 0, 0, 0],
                [0, 1, 0, 0], [0, 0, 1, 0], [0, 0, 0, 1]]\<rparr>"

section \<open>Properties\<close>

subsection \<open>Pixels of the image module of the specification\<close>

lemma mix_one [simp]: "mix 1 p q = q"
  by (cases p; cases q) (simp add: mix_def)

lemma mix_zero [simp]: "mix 0 p q = p"
  by (cases p; cases q) (simp add: mix_def)

lemma length_weights_Bools [simp]: "length (weights (Bools bs)) = length bs"
  by (simp add: weights_def)

lemma length_weights_Scalars [simp]: "weights (Scalars ws) = ws"
  by (simp add: weights_def)

lemma nth_weights_Bools:
  "i < length bs \<Longrightarrow> weights (Bools bs) ! i = (if bs ! i then 1 else 0)"
  by (simp add: weights_def)

lemma length_blend_spec:
  "length (blend_spec base over alpha)
     = min (length base) (min (length over) (length (weights alpha)))"
  by (simp add: blend_spec_def)

lemma blend_spec_nth:
  "i < length base \<Longrightarrow> i < length over \<Longrightarrow> i < length (weights alpha) \<Longrightarrow>
   blend_spec base over alpha ! i = mix (weights alpha ! i) (base ! i) (over ! i)"
  by (simp add: blend_spec_def)

lemma length_mask_spec:
  "length (mask_spec back ps m) = min (length ps) (length (weights m))"
  by (simp add: mask_spec_def)

lemma mask_spec_nth:
  "i < length ps \<Longrightarrow> i < length (weights m) \<Longrightarrow>
   mask_spec back ps m ! i = (if weights m ! i \<noteq> 0 then ps ! i else back)"
  by (simp add: mask_spec_def)

lemma length_colorize_spec [simp]: "length (colorize_spec cmap xs name lims) = length xs"
  by (simp add: colorize_spec_def)

lemma colorize_spec_nth:
  "i < length xs \<Longrightarrow> colorize_spec cmap xs name lims ! i = cmap name (normalize lims (xs ! i))"
  by (simp add: colorize_spec_def)

lemma length_scale_clip_spec [simp]: "length (scale_clip_spec xs lims) = length xs"
  by (simp add: scale_clip_spec_def)

lemma image_spec_sel [simp]:
  "colorize (image_spec cmap back) = colorize_spec cmap"
  "mask_image (image_spec cmap back) = mask_spec back"
  "scale_clip (image_spec cmap back) = scale_clip_spec"
  "blend (image_spec cmap back) = blend_spec"
  by (simp_all add: image_spec_def)

lemma blend_binary_pixel:
  assumes "i < length bs" "length B = length bs" "length C = length bs"
  shows "blend_spec B (mask_spec back C (Bools bs)) (Bools bs) ! i
           = (if bs ! i then C ! i else B ! i)"
  using assms
  by (simp add: blend_spec_nth mask_spec_nth length_mask_spec nth_weights_Bools)

lemma blend_scalar_pixel:
  assumes "i < length ws" "length B = length ws" "length C = length ws"
  shows "blend_spec B (mask_spec back C (Scalars ws)) (Scalars ws) ! i
           = mix (ws ! i) (B ! i) (if ws ! i \<noteq> 0 then C ! i else back)"
  using assms
  by (simp add: blend_spec_nth mask_spec_nth length_mask_spec)

subsection \<open>The colour mask\<close>

text \<open>
  Where the threshold is absent or nonzero the code resolves the colour mask as the
  specification words it.
\<close>

lemma sl_color_mask_agrees:
  "color_mask_thresh opts \<noteq> Some 0 \<Longrightarrow>
   sl_color_mask sl opts col cmv = color_mask_policy sl opts col cmv"
  by (auto simp: sl_color_mask_def color_mask_policy_def truthy_thresh_def Let_def
      split: option.splits)

text \<open>
  Claim C1: the colour mask follows the three-tier policy, a given threshold binarizing
  the sampled mask volume, or else the colour field.  At the threshold 0.0, which is a
  given threshold, the code does not binarize: with a mask volume sampled as
  \<open>[0.5, 0]\<close> it keeps the samples where the policy gives \<open>[True, False]\<close>, and with
  no mask volume and colour samples \<open>[2, -1]\<close> it gives all-ones where the policy gives
  \<open>[True, False]\<close>.
\<close>

theorem overlay_slice_zero_threshold_not_binarized:
  "sl_color_mask flat_slice (default_options\<lparr>color_mask_thresh := Some 0\<rparr>) [2, -1]
     (Some [1/2, 0]) = Scalars [1/2, 0]
   \<and> color_mask_policy flat_slice (default_options\<lparr>color_mask_thresh := Some 0\<rparr>) [2, -1]
     (Some [1/2, 0]) = Bools [True, False]
   \<and> sl_color_mask flat_slice (default_options\<lparr>color_mask_thresh := Some 0\<rparr>) [2, -1]
     None = Scalars [1, 1]
   \<and> color_mask_policy flat_slice (default_options\<lparr>color_mask_thresh := Some 0\<rparr>) [2, -1]
     None = Bools [True, False]"
  by (simp add: sl_color_mask_def color_mask_policy_def truthy_thresh_def flat_slice_def
      default_options_def greater_than_def ones_like_def)

subsection \<open>Blending\<close>

text \<open>
  Claim C2: with a colour volume and no alpha volume, the base layer and the masked
  colour layer are blended with the resolved colour mask itself as the weight.  With the
  image module of the specification, a binarized mask \<open>bs\<close> is a hard cutout (the colour
  pixel where \<open>bs\<close> is true, the base pixel elsewhere), and a continuous mask \<open>ws\<close>
  blends softly, its value being the weight.
\<close>

theorem overlay_slice_mask_as_weight:
  "sl_blend img sl opts window img_base (Some c) img_color_mask None
     = blend img (sl_base img sl opts window img_base)
         (sl_color_masked img sl opts c img_color_mask)
         (sl_color_mask sl opts (sl_color sl opts c) img_color_mask)
   \<and> (sl_color_mask sl opts (sl_color sl opts c) img_color_mask = Bools bs
        \<and> length (sample sl img_base (interp_order opts)) = length bs
        \<and> length (sample sl c (interp_order opts)) = length bs
        \<and> i < length bs
      \<longrightarrow> overlay_slice (image_spec cmap bg) sl opts window img_base None (Some c)
            img_color_mask None ! i
          = (if bs ! i
             then cmap (color_map opts)
                    (normalize (color_lims opts)
                       (sample sl c (interp_order opts) ! i * color_scale opts))
             else cmap ''gray'' (normalize window (sample sl img_base (interp_order opts) ! i))))
   \<and> (sl_color_mask sl opts (sl_color sl opts c) img_color_mask = Scalars ws
        \<and> length (sample sl img_base (interp_order opts)) = length ws
        \<and> length (sample sl c (interp_order opts)) = length ws
        \<and> i < length ws
      \<longrightarrow> overlay_slice (image_spec cmap bg) sl opts window img_base None (Some c)
            img_color_mask None ! i
          = mix (ws ! i)
              (cmap ''gray'' (normalize window (sample sl img_base (interp_order opts) ! i)))
              (if ws ! i \<noteq> 0
               then cmap (color_map opts)
                      (normalize (color_lims opts)
                         (sample sl c (interp_order opts) ! i * color_scale opts))
               else bg))"
  (is "?structure \<and> (?binary \<longrightarrow> ?cutout) \<and> (?continuous \<longrightarrow> ?soft)")
proof (intro conjI impI)
  show ?structure
    by (simp add: sl_blend_def)
next
  let ?o = "interp_order opts"
  let ?B = "colorize_spec cmap (sample sl img_base ?o) ''gray'' window"
  let ?C = "colorize_spec cmap (sl_color sl opts c) (color_map opts) (color_lims opts)"
  assume h: ?binary
  then have "overlay_slice (image_spec cmap bg) sl opts window img_base None (Some c)
        img_color_mask None ! i
      = blend_spec ?B (mask_spec bg ?C (Bools bs)) (Bools bs) ! i"
    by (simp add: overlay_slice_def sl_blend_def sl_base_def sl_color_masked_def)
  also have "\<dots> = (if bs ! i then ?C ! i else ?B ! i)"
    using h by (intro blend_binary_pixel) (simp_all add: sl_color_def scale_by_def)
  also have "\<dots> = (if bs ! i
             then cmap (color_map opts)
                    (normalize (color_lims opts) (sample sl c ?o ! i * color_scale opts))
             else cmap ''gray'' (normalize window (sample sl img_base ?o ! i)))"
    using h by (simp add: colorize_spec_nth sl_color_def scale_by_def)
  finally show ?cutout .
next
  let ?o = "interp_order opts"
  let ?B = "colorize_spec cmap (sample sl img_base ?o) ''gray'' window"
  let ?C = "colorize_spec cmap (sl_color sl opts c) (color_map opts) (color_lims opts)"
  assume h: ?continuous
  then have "overlay_slice (image_spec cmap bg) sl opts window img_base None (Some c)
        img_color_mask None ! i
      = blend_spec ?B (mask_spec bg ?C (Scalars ws)) (Scalars ws) ! i"
    by (simp add: overlay_slice_def sl_blend_def sl_base_def sl_color_masked_def)
  also have "\<dots> = mix (ws ! i) (?B ! i) (if ws ! i \<noteq> 0 then ?C ! i else bg)"
    using h by (intro blend_scalar_pixel) (simp_all add: sl_color_def scale_by_def)
  also have "\<dots> = mix (ws ! i)
              (cmap ''gray'' (normalize window (sample sl img_base ?o ! i)))
              (if ws ! i \<noteq> 0
               then cmap (color_map opts)
                      (normalize (color_lims opts) (sample sl c ?o ! i * color_scale opts))
               else bg)"
    using h by (simp add: colorize_spec_nth sl_color_def scale_by_def)
  finally show ?soft .
qed

theorem overlay_slice_mask_as_weight_witness:
  "overlay_slice (image_spec grey_cmap (0, 0, 0)) flat_slice
     (default_options\<lparr>color_mask_thresh := Some (1/2)\<rparr>) (0, 1)
     [1/5, 4/5] None (Some [1, 1/4]) None None ! 0 = (1, 1, 1)
   \<and> overlay_slice (image_spec grey_cmap (0, 0, 0)) flat_slice
     (default_options\<lparr>color_mask_thresh := Some (1/2)\<rparr>) (0, 1)
     [1/5, 4/5] None (Some [1, 1/4]) None None ! 1 = (4/5, 4/5, 4/5)
   \<and> overlay_slice (image_spec grey_cmap (0, 0, 0)) flat_slice default_options (0, 1)
     [1/5, 4/5] None (Some [1, 1/4]) (Some [1/4, 0]) None ! 0 = (2/5, 2/5, 2/5)"
proof -
  note t = overlay_slice_mask_as_weight
  let ?half = "default_options\<lparr>color_mask_thresh := Some (1/2)\<rparr>"
  have m: "sl_color_mask flat_slice ?half (sl_color flat_slice ?half [1, 1/4]) None
      = Bools [True, False]"
    by (simp add: sl_color_mask_def sl_color_def truthy_thresh_def flat_slice_def
        default_options_def scale_by_def greater_than_def)
  have w: "sl_color_mask flat_slice default_options
        (sl_color flat_slice default_options [1, 1/4]) (Some [1/4, 0]) = Scalars [1/4, 0]"
    by (simp add: sl_color_mask_def truthy_thresh_def flat_slice_def default_options_def)
  have a: "overlay_slice (image_spec grey_cmap (0, 0, 0)) flat_slice ?half (0, 1)
     [1/5, 4/5] None (Some [1, 1/4]) None None ! 0 = (1, 1, 1)"
    using m t [where sl = flat_slice and opts = ?half and img_color_mask = None
        and img_base = "[1/5, 4/5]" and c = "[1, 1/4]" and bs = "[True, False]" and i = 0
        and cmap = grey_cmap and bg = "(0, 0, 0)" and window = "(0, 1)",
        THEN conjunct2, THEN conjunct1]
    by (simp add: flat_slice_def default_options_def grey_cmap_def normalize_def)
  have b: "overlay_slice (image_spec grey_cmap (0, 0, 0)) flat_slice ?half (0, 1)
     [1/5, 4/5] None (Some [1, 1/4]) None None ! 1 = (4/5, 4/5, 4/5)"
    using m t [where sl = flat_slice and opts = ?half and img_color_mask = None
        and img_base = "[1/5, 4/5]" and c = "[1, 1/4]" and bs = "[True, False]" and i = 1
        and cmap = grey_cmap and bg = "(0, 0, 0)" and window = "(0, 1)",
        THEN conjunct2, THEN conjunct1]
    by (simp add: flat_slice_def default_options_def grey_cmap_def normalize_def)
  have c: "overlay_slice (image_spec grey_cmap (0, 0, 0)) flat_slice default_options (0, 1)
     [1/5, 4/5] None (Some [1, 1/4]) (Some [1/4, 0]) None ! 0 = (2/5, 2/5, 2/5)"
    using w t [where sl = flat_slice and opts = default_options
        and img_color_mask = "Some [1/4, 0]"
        and img_base = "[1/5, 4/5]" and c = "[1, 1/4]" and ws = "[1/4, 0]" and i = 0
        and cmap = grey_cmap and bg = "(0, 0, 0)" and window = "(0, 1)",
        THEN conjunct2, THEN conjunct2]
    by (simp add: flat_slice_def default_options_def grey_cmap_def normalize_def mix_def)
  from a b c show ?thesis by simp
qed

text \<open>
  Claim C3: with a colour volume and an alpha volume, the blend weight is
  \<open>scale_clip\<close> of the sampled alpha volume with \<open>alpha_lims\<close>, whatever the colour
  mask threshold \<open>t\<close> and the colour mask volume are.  With the image module of the
  specification the weight at pixel \<open>i\<close> is the normalized alpha sample at \<open>i\<close>.
\<close>

theorem overlay_slice_alpha_weight:
  "sl_blend img sl (opts\<lparr>color_mask_thresh := t\<rparr>) window img_base (Some c) img_color_mask (Some a)
     = blend img (sl_base img sl opts window img_base)
         (sl_color_masked img sl (opts\<lparr>color_mask_thresh := t\<rparr>) c img_color_mask)
         (Scalars (scale_clip img (sample sl a (interp_order opts)) (alpha_lims opts)))
   \<and> (i < length (sample sl img_base (interp_order opts))
        \<and> i < length (sample sl a (interp_order opts))
        \<and> i < length (sl_color_masked (image_spec cmap bg) sl
                        (opts\<lparr>color_mask_thresh := t\<rparr>) c img_color_mask)
      \<longrightarrow> overlay_slice (image_spec cmap bg) sl (opts\<lparr>color_mask_thresh := t\<rparr>) window
            img_base None (Some c) img_color_mask (Some a) ! i
          = mix (normalize (alpha_lims opts) (sample sl a (interp_order opts) ! i))
              (cmap ''gray'' (normalize window (sample sl img_base (interp_order opts) ! i)))
              (sl_color_masked (image_spec cmap bg) sl
                 (opts\<lparr>color_mask_thresh := t\<rparr>) c img_color_mask ! i))"
proof (intro conjI impI)
  show "sl_blend img sl (opts\<lparr>color_mask_thresh := t\<rparr>) window img_base (Some c) img_color_mask (Some a)
     = blend img (sl_base img sl opts window img_base)
         (sl_color_masked img sl (opts\<lparr>color_mask_thresh := t\<rparr>) c img_color_mask)
         (Scalars (scale_clip img (sample sl a (interp_order opts)) (alpha_lims opts)))"
    by (simp add: sl_blend_def sl_base_def Let_def)
next
  let ?o = "interp_order opts" and ?opts = "opts\<lparr>color_mask_thresh := t\<rparr>"
  let ?L = "sl_color_masked (image_spec cmap bg) sl ?opts c img_color_mask"
  assume h: "i < length (sample sl img_base ?o) \<and> i < length (sample sl a ?o) \<and> i < length ?L"
  have "overlay_slice (image_spec cmap bg) sl ?opts window img_base None (Some c)
          img_color_mask (Some a) ! i
      = blend_spec (colorize_spec cmap (sample sl img_base ?o) ''gray'' window) ?L
          (Scalars (scale_clip_spec (sample sl a ?o) (alpha_lims opts))) ! i"
    by (simp add: overlay_slice_def sl_blend_def sl_base_def Let_def)
  also have "\<dots> = mix (normalize (alpha_lims opts) (sample sl a ?o ! i))
              (cmap ''gray'' (normalize window (sample sl img_base ?o ! i))) (?L ! i)"
    using h by (simp add: blend_spec_nth colorize_spec_nth scale_clip_spec_def)
  finally show "overlay_slice (image_spec cmap bg) sl ?opts window img_base None (Some c)
          img_color_mask (Some a) ! i
      = mix (normalize (alpha_lims opts) (sample sl a ?o ! i))
              (cmap ''gray'' (normalize window (sample sl img_base ?o ! i))) (?L ! i)" .
qed

theorem overlay_slice_alpha_weight_witness:
  "overlay_slice (image_spec grey_cmap (0, 0, 0)) flat_slice
     (default_options\<lparr>color_mask_thresh := Some (1/2)\<rparr>) (0, 1)
     [1/5, 4/5] None (Some [1, 1/4]) None (Some [3/4, 1/4]) ! 0 = (3/5, 3/5, 3/5)"
  using overlay_slice_alpha_weight [where sl = flat_slice and opts = default_options
        and t = "Some (1/2)" and img_base = "[1/5, 4/5]" and c = "[1, 1/4]"
        and img_color_mask = None and a = "[3/4, 1/4]" and i = 0
        and cmap = grey_cmap and bg = "(0, 0, 0)" and window = "(0, 1)",
        THEN conjunct2]
  by (simp add: flat_slice_def default_options_def grey_cmap_def normalize_def mix_def
      sl_color_masked_def sl_color_def sl_color_mask_def truthy_thresh_def scale_by_def
      greater_than_def colorize_spec_def mask_spec_def weights_def)

subsection \<open>Absent layers\<close>

text \<open>
  Claim C4: with no colour, mask and alpha volume, the result is the grey colorization
  of the base volume sampled at \<open>interp_order\<close> and normalized to the window.
\<close>

theorem overlay_slice_base_only:
  "overlay_slice img sl opts window img_base None None img_color_mask None
     = colorize img (sample sl img_base (interp_order opts)) ''gray'' window"
  by (simp add: overlay_slice_def sl_blend_def sl_base_def)

text \<open>
  Claim C5: a mask volume, sampled at \<open>interp_order\<close>, masks the blended result;
  without a mask volume the blended result is returned as it is.
\<close>

theorem overlay_slice_final_mask:
  "overlay_slice img sl opts window img_base (Some m) img_color img_color_mask img_alpha
     = mask_image img (sl_blend img sl opts window img_base img_color img_color_mask img_alpha)
         (Scalars (sample sl m (interp_order opts)))
   \<and> overlay_slice img sl opts window img_base None img_color img_color_mask img_alpha
     = sl_blend img sl opts window img_base img_color img_color_mask img_alpha"
  by (simp add: overlay_slice_def)

text \<open>
  Claim C8: a threshold of 0.0 behaves as no threshold: the result is the same, a
  sampled mask volume is used unbinarized and without a mask volume the colour mask is
  all-ones.
\<close>

theorem overlay_slice_zero_threshold_is_none:
  "overlay_slice img sl (opts\<lparr>color_mask_thresh := Some 0\<rparr>) window img_base img_mask
       img_color img_color_mask img_alpha
     = overlay_slice img sl (opts\<lparr>color_mask_thresh := None\<rparr>) window img_base img_mask
       img_color img_color_mask img_alpha
   \<and> sl_color_mask sl (opts\<lparr>color_mask_thresh := Some 0\<rparr>) col (Some cm)
     = Scalars (sample sl cm (interp_order opts))
   \<and> sl_color_mask sl (opts\<lparr>color_mask_thresh := Some 0\<rparr>) col None
     = Scalars (ones_like col)"
  by (simp add: overlay_slice_def sl_blend_def sl_base_def sl_color_masked_def sl_color_def
      sl_color_mask_def truthy_thresh_def Let_def split: option.splits)

subsection \<open>Contours\<close>

lemma any_true_less_than: "any_true (less_than xs t) \<longleftrightarrow> (\<exists>x\<in>set xs. x < t)"
  by (auto simp: any_true_def less_than_def list_ex_iff)

lemma any_true_greater_than: "any_true (greater_than xs t) \<longleftrightarrow> (\<exists>x\<in>set xs. t < x)"
  by (auto simp: any_true_def greater_than_def list_ex_iff)

text \<open>
  Claim C10: with a contour image, \<^verbatim>\<open>draw_slice\<close> makes the contour call exactly when
  the sampled contour field has a value strictly below and a value strictly above the
  first level; when the field lies on one side of the level (or at it), only the image
  is drawn and nothing is raised.
\<close>

theorem draw_slice_contour:
  "draw_slice img sl opts window base msk color_img color_mask alpha_img
      (Some ci) (level # more_levels) colors
     = ([Imshow (overlay_slice img sl opts window base msk color_img color_mask alpha_img)
           (extent sl), Axis_off]
        @ (if (\<exists>x\<in>set (sample sl ci 1). x < level) \<and> (\<exists>x\<in>set (sample sl ci 1). level < x)
           then [Contour (sample sl ci 1) (level # more_levels) (extent sl) colors]
           else []),
        None)
   \<and> ((\<forall>x\<in>set (sample sl ci 1). x \<le> level) \<or> (\<forall>x\<in>set (sample sl ci 1). level \<le> x)
      \<longrightarrow> draw_slice img sl opts window base msk color_img color_mask alpha_img
            (Some ci) (level # more_levels) colors
          = ([Imshow (overlay_slice img sl opts window base msk color_img color_mask alpha_img)
                (extent sl), Axis_off], None))"
proof (intro conjI impI)
  let ?s = "sample sl ci 1"
  show "draw_slice img sl opts window base msk color_img color_mask alpha_img
      (Some ci) (level # more_levels) colors
     = ([Imshow (overlay_slice img sl opts window base msk color_img color_mask alpha_img)
           (extent sl), Axis_off]
        @ (if (\<exists>x\<in>set ?s. x < level) \<and> (\<exists>x\<in>set ?s. level < x)
           then [Contour ?s (level # more_levels) (extent sl) colors]
           else []),
        None)"
    by (simp add: draw_slice_def Let_def any_true_less_than any_true_greater_than)
next
  let ?s = "sample sl ci 1"
  assume "(\<forall>x\<in>set ?s. x \<le> level) \<or> (\<forall>x\<in>set ?s. level \<le> x)"
  then have "\<not> ((\<exists>x\<in>set ?s. x < level) \<and> (\<exists>x\<in>set ?s. level < x))"
    by fastforce
  then show "draw_slice img sl opts window base msk color_img color_mask alpha_img
            (Some ci) (level # more_levels) colors
          = ([Imshow (overlay_slice img sl opts window base msk color_img color_mask alpha_img)
                (extent sl), Axis_off], None)"
    by (simp add: draw_slice_def Let_def any_true_less_than any_true_greater_than)
qed

theorem draw_slice_contour_witness:
  "draw_slice (image_spec grey_cmap (0, 0, 0)) flat_slice default_options (0, 1)
      [1/5, 4/5] None None None None (Some [1, 96/100]) [95/100] ''w''
     = ([Imshow [(1/5, 1/5, 1/5), (4/5, 4/5, 4/5)] (0, 1, 0, 1), Axis_off], None)
   \<and> draw_slice (image_spec grey_cmap (0, 0, 0)) flat_slice default_options (0, 1)
      [1/5, 4/5] None None None None (Some [1, 0]) [95/100] ''w''
     = ([Imshow [(1/5, 1/5, 1/5), (4/5, 4/5, 4/5)] (0, 1, 0, 1), Axis_off,
         Contour [1, 0] [95/100] (0, 1, 0, 1) ''w''], None)"
proof -
  have ov: "overlay_slice (image_spec grey_cmap (0, 0, 0)) flat_slice default_options (0, 1)
      [1/5, 4/5] None None None None = [(1/5, 1/5, 1/5), (4/5, 4/5, 4/5)]"
    by (simp add: overlay_slice_def sl_blend_def sl_base_def flat_slice_def colorize_spec_def
        grey_cmap_def normalize_def)
  have a: "draw_slice (image_spec grey_cmap (0, 0, 0)) flat_slice default_options (0, 1)
      [1/5, 4/5] None None None None (Some [1, 96/100]) [95/100] ''w''
     = ([Imshow [(1/5, 1/5, 1/5), (4/5, 4/5, 4/5)] (0, 1, 0, 1), Axis_off], None)"
    using draw_slice_contour [where img = "image_spec grey_cmap (0, 0, 0)" and sl = flat_slice
        and opts = default_options and window = "(0, 1)" and base = "[1/5, 4/5]"
        and msk = None and color_img = None and color_mask = None and alpha_img = None
        and ci = "[1, 96/100]" and level = "95/100" and more_levels = "[]" and colors = "''w''",
        THEN conjunct2]
    by (simp add: ov) (simp add: flat_slice_def)
  have b: "draw_slice (image_spec grey_cmap (0, 0, 0)) flat_slice default_options (0, 1)
      [1/5, 4/5] None None None None (Some [1, 0]) [95/100] ''w''
     = ([Imshow [(1/5, 1/5, 1/5), (4/5, 4/5, 4/5)] (0, 1, 0, 1), Axis_off,
         Contour [1, 0] [95/100] (0, 1, 0, 1) ''w''], None)"
    using draw_slice_contour [where img = "image_spec grey_cmap (0, 0, 0)" and sl = flat_slice
        and opts = default_options and window = "(0, 1)" and base = "[1/5, 4/5]"
        and msk = None and color_img = None and color_mask = None and alpha_img = None
        and ci = "[1, 0]" and level = "95/100" and more_levels = "[]" and colors = "''w''",
        THEN conjunct1]
    by (simp add: ov) (simp add: flat_slice_def)
  from a b show ?thesis by simp
qed

subsection \<open>The argument parser\<close>

text \<open>
  Claim C9: \<^verbatim>\<open>common_options()\<close> returns the parser without raising.  It does not: the
  fourth \<^verbatim>\<open>add_argument\<close> call passes the keyword \<^verbatim>\<open>noptions\<close>, which no argparse
  action accepts, and every call of \<^verbatim>\<open>common_options\<close> ends in TypeError.
\<close>

theorem common_options_raises: "common_options = Inl TypeError"
  by (simp add: common_options_def common_options_calls_def add_argument_def
      action_keywords_def)

subsection \<open>The centre of mass of a single voxel\<close>

lemma sum_list_upt_zero:
  "(\<And>k. k < n \<Longrightarrow> f k = (0::real)) \<Longrightarrow> sum_list (map f [0..<n]) = 0"
  by (induction n) simp_all

lemma sum_list_upt_single:
  "c < n \<Longrightarrow> (\<And>k. k < n \<Longrightarrow> k \<noteq> c \<Longrightarrow> f k = (0::real)) \<Longrightarrow>
   sum_list (map f [0..<n]) = f c"
proof (induction n)
  case 0
  then show ?case by simp
next
  case (Suc n)
  show ?case
  proof (cases "c = n")
    case True
    have "sum_list (map f [0..<n]) = 0"
      using Suc.prems(2) True by (intro sum_list_upt_zero) simp
    with True show ?thesis by simp
  next
    case False
    with Suc.prems have "c < n" by simp
    moreover have "f n = 0" using Suc.prems(2) [of n] False by simp
    ultimately show ?thesis using Suc.IH Suc.prems(2) by simp
  qed
qed

lemma sum_list_upt_upt_zero:
  "(\<And>j k. j < n \<Longrightarrow> k < m \<Longrightarrow> g j k = (0::real)) \<Longrightarrow>
   sum_list (map (\<lambda>j. sum_list (map (\<lambda>k. g j k) [0..<m])) [0..<n]) = 0"
  by (intro sum_list_upt_zero) simp

lemma sum_list_upt_upt_single:
  assumes "p < n" "q < m"
    and z: "\<And>j k. j < n \<Longrightarrow> k < m \<Longrightarrow> (j, k) \<noteq> (p, q) \<Longrightarrow> g j k = (0::real)"
  shows "sum_list (map (\<lambda>j. sum_list (map (\<lambda>k. g j k) [0..<m])) [0..<n]) = g p q"
proof -
  have "sum_list (map (\<lambda>j. sum_list (map (\<lambda>k. g j k) [0..<m])) [0..<n])
      = sum_list (map (\<lambda>k. g p k) [0..<m])"
  proof (rule sum_list_upt_single [OF assms(1)])
    fix j assume "j < n" "j \<noteq> p"
    then show "sum_list (map (\<lambda>k. g j k) [0..<m]) = 0"
      by (intro sum_list_upt_zero z) simp_all
  qed
  also have "\<dots> = g p q"
    using assms(1) by (intro sum_list_upt_single [OF assms(2)] z) simp_all
  finally show ?thesis .
qed

lemma map_upt_indicator:
  assumes "\<And>i. i < n \<Longrightarrow> f i = (if i = p then v else (0::real))"
  shows "map f [0..<n] = map (\<lambda>i. if i = p then v else 0) [0..<n]"
  using assms by (intro map_cong) simp_all

lemma argmax_from_none_greater:
  "(\<And>x. x \<in> set xs \<Longrightarrow> x \<le> bv) \<Longrightarrow> argmax_from xs i best bv = best"
  by (induction xs arbitrary: i) (simp_all add: not_less [symmetric])

lemma argmax_from_strict_max:
  "p < length xs \<Longrightarrow> bv < xs ! p \<Longrightarrow>
   (\<And>j. j < length xs \<Longrightarrow> j \<noteq> p \<Longrightarrow> xs ! j < xs ! p) \<Longrightarrow>
   argmax_from xs i best bv = i + p"
proof (induction xs arbitrary: i best bv p)
  case Nil
  then show ?case by simp
next
  case (Cons x xs)
  show ?case
  proof (cases p)
    case 0
    have "y \<le> x" if "y \<in> set xs" for y
    proof -
      from that obtain j where "j < length xs" "xs ! j = y" by (auto simp: in_set_conv_nth)
      with Cons.prems(3) [of "Suc j"] 0 show ?thesis by simp
    qed
    then have "argmax_from xs (Suc i) i x = i" by (rule argmax_from_none_greater)
    with Cons.prems(2) 0 show ?thesis by simp
  next
    case (Suc q)
    have q: "q < length xs" using Cons.prems(1) Suc by simp
    have mx: "xs ! j < xs ! q" if "j < length xs" "j \<noteq> q" for j
      using Cons.prems(3) [of "Suc j"] that Suc by simp
    have x: "x < xs ! q" using Cons.prems(3) [of 0] Suc by simp
    have bv: "bv < xs ! q" using Cons.prems(2) Suc by simp
    show ?thesis
    proof (cases "bv < x")
      case True
      with Cons.IH [OF q x mx, of "Suc i" i] Suc show ?thesis by simp
    next
      case False
      with Cons.IH [OF q bv mx, of "Suc i" best] Suc show ?thesis by simp
    qed
  qed
qed

lemma argmax_strict_max:
  assumes "p < length xs" "\<And>j. j < length xs \<Longrightarrow> j \<noteq> p \<Longrightarrow> xs ! j < xs ! p"
  shows "argmax xs = Inr p"
proof (cases xs)
  case Nil
  with assms show ?thesis by simp
next
  case (Cons x rest)
  show ?thesis
  proof (cases p)
    case 0
    have "y \<le> x" if "y \<in> set rest" for y
    proof -
      from that obtain j where "j < length rest" "rest ! j = y" by (auto simp: in_set_conv_nth)
      with assms(2) [of "Suc j"] 0 Cons show ?thesis by simp
    qed
    then have "argmax_from rest 1 0 x = 0" by (rule argmax_from_none_greater)
    with 0 Cons show ?thesis by (simp add: argmax_def)
  next
    case (Suc q)
    have q: "q < length rest" using assms(1) Suc Cons by simp
    have mx: "rest ! j < rest ! q" if "j < length rest" "j \<noteq> q" for j
      using assms(2) [of "Suc j"] that Suc Cons by simp
    have x: "x < rest ! q" using assms(2) [of 0] Suc Cons by simp
    from argmax_from_strict_max [OF q x mx, of 1 0] Suc Cons show ?thesis
      by (simp add: argmax_def)
  qed
qed

lemma argmax_indicator:
  assumes "p < n" "0 < v"
  shows "argmax (map (\<lambda>i. if i = p then v else 0) [0..<n]) = Inr p"
  using assms by (intro argmax_strict_max) simp_all

lemma dot_rows_of_four:
  assumes "list_all (\<lambda>row. length row = 4) m"
  shows "dot m [x, y, z, 1]
           = Inr (map (\<lambda>row. row ! 0 * x + row ! 1 * y + row ! 2 * z + row ! 3) m)"
proof -
  have row: "sum_list (map (\<lambda>(a, u). a * u) (zip row [x, y, z, 1]))
        = row ! 0 * x + row ! 1 * y + row ! 2 * z + row ! 3" if "length row = 4" for row
  proof -
    from that obtain r0 r1 r2 r3 where "row = [r0, r1, r2, r3]"
      by (auto simp: numeral_eq_Suc length_Suc_conv)
    then show ?thesis by simp
  qed
  have eq: "map (\<lambda>row. sum_list (map (\<lambda>(a, u). a * u) (zip row [x, y, z, 1]))) m
      = map (\<lambda>row. row ! 0 * x + row ! 1 * y + row ! 2 * z + row ! 3) m"
    using assms by (intro map_cong refl row) (simp add: list_all_iff)
  have len: "length [x, y, z, 1] = 4" by simp
  show ?thesis
    unfolding dot_def len using assms eq by simp
qed

text \<open>
  Claim C6, as amended: for a 3D volume whose only nonzero voxel is positive and sits at
  index \<open>(a, b, c)\<close>, and whose affine has 4 rows of 4, \<^verbatim>\<open>center_of_mass\<close> returns the
  product of the affine with \<open>(a, b, c, 1)\<close>.  That is a vector of four components:
  the physical-space coordinate of the voxel followed by the component of the last row
  of the affine.
\<close>

theorem center_of_mass_single_voxel:
  assumes shp: "shape (get_data img) = (n0, n1, n2)"
    and idx: "a < n0" "b < n1" "c < n2"
    and pos: "0 < elem (get_data img) a b c"
    and zero: "\<forall>i<n0. \<forall>j<n1. \<forall>k<n2. (i, j, k) \<noteq> (a, b, c) \<longrightarrow> elem (get_data img) i j k = 0"
    and aff: "length (affine img) = 4" "list_all (\<lambda>row. length row = 4) (affine img)"
  shows "center_of_mass img
           = Inr (map (\<lambda>row. row ! 0 * real a + row ! 1 * real b + row ! 2 * real c + row ! 3)
                    (affine img))
         \<and> (\<exists>w. center_of_mass img = Inr (voxel_to_physical (affine img) (a, b, c) @ [w]))"
proof -
  let ?d = "get_data img" and ?v = "elem (get_data img) a b c"
  have z: "elem ?d i j k = 0" if "i < n0" "j < n1" "k < n2" "(i, j, k) \<noteq> (a, b, c)" for i j k
    using zero that by blast
  have s12: "sum_axes_12 ?d = map (\<lambda>i. if i = a then ?v else 0) [0..<n0]"
    unfolding sum_axes_12_def shp prod.case
  proof (rule map_upt_indicator)
    fix i assume i: "i < n0"
    show "sum_list (map (\<lambda>j. sum_list (map (\<lambda>k. elem ?d i j k) [0..<n2])) [0..<n1])
        = (if i = a then ?v else 0)"
    proof (cases "i = a")
      case True
      have "sum_list (map (\<lambda>j. sum_list (map (\<lambda>k. elem ?d a j k) [0..<n2])) [0..<n1]) = ?v"
        using idx by (intro sum_list_upt_upt_single [where g = "\<lambda>j k. elem ?d a j k"] z) auto
      with True show ?thesis by simp
    next
      case False
      have "sum_list (map (\<lambda>j. sum_list (map (\<lambda>k. elem ?d i j k) [0..<n2])) [0..<n1]) = 0"
        using i False by (intro sum_list_upt_upt_zero z) auto
      with False show ?thesis by simp
    qed
  qed
  have s02: "sum_axes_02 ?d = map (\<lambda>j. if j = b then ?v else 0) [0..<n1]"
    unfolding sum_axes_02_def shp prod.case
  proof (rule map_upt_indicator)
    fix j assume j: "j < n1"
    show "sum_list (map (\<lambda>i. sum_list (map (\<lambda>k. elem ?d i j k) [0..<n2])) [0..<n0])
        = (if j = b then ?v else 0)"
    proof (cases "j = b")
      case True
      have "sum_list (map (\<lambda>i. sum_list (map (\<lambda>k. elem ?d i b k) [0..<n2])) [0..<n0]) = ?v"
        using idx by (intro sum_list_upt_upt_single [where g = "\<lambda>i k. elem ?d i b k"] z) auto
      with True show ?thesis by simp
    next
      case False
      have "sum_list (map (\<lambda>i. sum_list (map (\<lambda>k. elem ?d i j k) [0..<n2])) [0..<n0]) = 0"
        using j False by (intro sum_list_upt_upt_zero z) auto
      with False show ?thesis by simp
    qed
  qed
  have s01: "sum_axes_01 ?d = map (\<lambda>k. if k = c then ?v else 0) [0..<n2]"
    unfolding sum_axes_01_def shp prod.case
  proof (rule map_upt_indicator)
    fix k assume k: "k < n2"
    show "sum_list (map (\<lambda>i. sum_list (map (\<lambda>j. elem ?d i j k) [0..<n1])) [0..<n0])
        = (if k = c then ?v else 0)"
    proof (cases "k = c")
      case True
      have "sum_list (map (\<lambda>i. sum_list (map (\<lambda>j. elem ?d i j c) [0..<n1])) [0..<n0]) = ?v"
        using idx by (intro sum_list_upt_upt_single [where g = "\<lambda>i j. elem ?d i j c"] z) auto
      with True show ?thesis by simp
    next
      case False
      have "sum_list (map (\<lambda>i. sum_list (map (\<lambda>j. elem ?d i j k) [0..<n1])) [0..<n0]) = 0"
        using k False by (intro sum_list_upt_upt_zero z) auto
      with False show ?thesis by simp
    qed
  qed
  let ?f = "\<lambda>row. row ! 0 * real a + row ! 1 * real b + row ! 2 * real c + row ! 3"
  have com: "center_of_mass img = Inr (map ?f (affine img))"
    by (simp add: center_of_mass_def s12 s02 s01 argmax_indicator idx pos
        dot_rows_of_four [OF aff(2)])
  from aff(1) obtain r0 r1 r2 r3 where rows: "affine img = [r0, r1, r2, r3]"
    by (auto simp: numeral_eq_Suc length_Suc_conv)
  have "map ?f (affine img) = voxel_to_physical (affine img) (a, b, c) @ [?f r3]"
    by (simp add: rows voxel_to_physical_def)
  with com show ?thesis by auto
qed

theorem center_of_mass_single_voxel_witness:
  "center_of_mass example_volume = Inr [12, 20, 32, 1]"
proof -
  have "center_of_mass example_volume
      = Inr (map (\<lambda>row. row ! 0 * real 1 + row ! 1 * real 0 + row ! 2 * real 1 + row ! 3)
               (affine example_volume))"
    by (rule center_of_mass_single_voxel [where ?n0.0 = 2 and ?n1.0 = 2 and ?n2.0 = 2,
          THEN conjunct1])
      (simp_all add: example_volume_def single_voxel_def)
  then show ?thesis by (simp add: example_volume_def)
qed

text \<open>
  The claim as stated asks for the 3-vector: on the example volume the result has four
  components and is not the physical-space coordinate \<open>(12, 20, 32)\<close> of the voxel.
\<close>

theorem center_of_mass_not_three_vector:
  "center_of_mass example_volume = Inr [12, 20, 32, 1]
   \<and> voxel_to_physical (affine example_volume) (1, 0, 1) = [12, 20, 32]
   \<and> center_of_mass example_volume \<noteq> Inr (voxel_to_physical (affine example_volume) (1, 0, 1))"
  by (simp add: center_of_mass_def example_volume_def single_voxel_def sum_axes_12_def
      sum_axes_02_def sum_axes_01_def argmax_def dot_def voxel_to_physical_def upt_rec)

subsection \<open>Sampling a voxel's own position\<close>

lemma weight_at_integer: "weight (real i) d = (if d = 0 then 1 else 0)"
  by (simp add: weight_def)

lemma map_coordinates_at_voxel:
  assumes "shape a = (n0, n1, n2)" "i < n0" "j < n1" "k < n2"
  shows "map_coordinates a [real i, real j, real k] = Inr [elem a i j k]"
  using assms
  by (simp add: map_coordinates_def outside_def weight_at_integer voxel_or_cval_def)

lemma dot_row_exact:
  "dot_row (\<lambda>x. x) [a, b, c] [x, y, z] = a * x + b * y + c * z"
  by (simp add: dot_row_def)

lemma dot_rounded_exact:
  "dot_rounded (\<lambda>x. x) [[a, b, c], [d, e, f], [g, h, i]] [x, y, z]
     = Inr [a * x + b * y + c * z, d * x + e * y + f * z, g * x + h * y + i * z]"
  by (simp add: dot_rounded_def dot_row_exact)

lemma cofactor_row_round_trip:
  fixes dt :: real
  assumes dt: "dt \<noteq> 0"
    and num: "p * a + q * d + r * g = dt * u" "p * b + q * e + r * h = dt * v"
             "p * c + q * f + r * i = dt * w"
  shows "p / dt * (a * x + b * y + c * z + t0)
         + q / dt * (d * x + e * y + f * z + t1)
         + r / dt * (g * x + h * y + i * z + t2)
         + (- (p / dt) * t0 + - (q / dt) * t1 + - (r / dt) * t2) = u * x + v * y + w * z"
proof -
  define s where "s = inverse dt"
  have s: "s * dt = 1" using dt by (simp add: s_def)
  have "p / dt * (a * x + b * y + c * z + t0)
         + q / dt * (d * x + e * y + f * z + t1)
         + r / dt * (g * x + h * y + i * z + t2)
         + (- (p / dt) * t0 + - (q / dt) * t1 + - (r / dt) * t2)
      = s * ((p * a + q * d + r * g) * x + (p * b + q * e + r * h) * y
             + (p * c + q * f + r * i) * z)"
    unfolding divide_inverse s_def [symmetric] by (simp add: algebra_simps)
  also have "\<dots> = (s * dt) * (u * x + v * y + w * z)"
    unfolding num by (simp add: algebra_simps)
  finally show ?thesis using s by simp
qed

lemma voxel_coordinates_exact:
  fixes a b c d e f g h i :: real
  assumes aff: "aff = [[a, b, c, t0], [d, e, f, t1], [g, h, i, t2], last_row]"
    and dt: "det3 (\<lambda>x. x) [[a, b, c], [d, e, f], [g, h, i]] \<noteq> 0"
  shows "voxel_coordinates (\<lambda>x. x) aff
           [a * x + b * y + c * z + t0, d * x + e * y + f * z + t1, g * x + h * y + i * z + t2]
         = Inr [x, y, z]"
proof -
  let ?dt = "a * (e * i - f * h) + b * (f * g - d * i) + c * (d * h - e * g)"
  have d3: "det3 (\<lambda>x. x) [[a, b, c], [d, e, f], [g, h, i]] = ?dt"
    by (simp add: det3_def)
  with dt have nz: "?dt \<noteq> 0" by simp
  have r0: "(e * i - f * h) / ?dt * (a * x + b * y + c * z + t0)
         + (c * h - b * i) / ?dt * (d * x + e * y + f * z + t1)
         + (b * f - c * e) / ?dt * (g * x + h * y + i * z + t2)
         + (- ((e * i - f * h) / ?dt) * t0 + - ((c * h - b * i) / ?dt) * t1
            + - ((b * f - c * e) / ?dt) * t2) = 1 * x + 0 * y + 0 * z"
    by (rule cofactor_row_round_trip [OF nz]) (simp_all add: algebra_simps)
  have r1: "(f * g - d * i) / ?dt * (a * x + b * y + c * z + t0)
         + (a * i - c * g) / ?dt * (d * x + e * y + f * z + t1)
         + (c * d - a * f) / ?dt * (g * x + h * y + i * z + t2)
         + (- ((f * g - d * i) / ?dt) * t0 + - ((a * i - c * g) / ?dt) * t1
            + - ((c * d - a * f) / ?dt) * t2) = 0 * x + 1 * y + 0 * z"
    by (rule cofactor_row_round_trip [OF nz]) (simp_all add: algebra_simps)
  have r2: "(d * h - e * g) / ?dt * (a * x + b * y + c * z + t0)
         + (b * g - a * h) / ?dt * (d * x + e * y + f * z + t1)
         + (a * e - b * d) / ?dt * (g * x + h * y + i * z + t2)
         + (- ((d * h - e * g) / ?dt) * t0 + - ((b * g - a * h) / ?dt) * t1
            + - ((a * e - b * d) / ?dt) * t2) = 0 * x + 0 * y + 1 * z"
    by (rule cofactor_row_round_trip [OF nz]) (simp_all add: algebra_simps)
  have inv: "matrix_inverse (\<lambda>x. x) [[a, b, c], [d, e, f], [g, h, i]]
      = Inr [[(e * i - f * h) / ?dt, (c * h - b * i) / ?dt, (b * f - c * e) / ?dt],
             [(f * g - d * i) / ?dt, (a * i - c * g) / ?dt, (c * d - a * f) / ?dt],
             [(d * h - e * g) / ?dt, (b * g - a * h) / ?dt, (a * e - b * d) / ?dt]]"
    using nz by (simp add: matrix_inverse_def d3 Let_def)
  show ?thesis
    unfolding voxel_coordinates_def aff
    using r0 r1 r2 by (simp add: inv dot_rounded_exact)
qed

lemma float64_one_tenth: "float64 (1 / 10) = 3602879701896397 / 36028797018963968"
  by code_simp

text \<open>
  Claim C7, as amended: for a volume with no axis of length 1, \<^verbatim>\<open>sample_point\<close> at
  order 1 returns the value of the voxel \<open>(i, j, k)\<close> whenever the voxel coordinate it
  computes for the point is exactly \<open>(i, j, k)\<close>, whatever the rounding; and in exact
  arithmetic it computes exactly \<open>(i, j, k)\<close> for the physical-space point of that
  voxel, for every affine of 4 rows of 4 whose 3 by 3 block is invertible.
\<close>

theorem sample_point_round_trip:
  assumes shp: "shape (get_data img) = (n0, n1, n2)"
    and dims: "n0 \<noteq> 1" "n1 \<noteq> 1" "n2 \<noteq> 1"
    and idx: "i < n0" "j < n1" "k < n2"
  shows "(voxel_coordinates rnd (affine img) p = Inr [real i, real j, real k]
            \<longrightarrow> sample_point rnd img p = Inr [elem (get_data img) i j k])
         \<and> (length (affine img) = 4 \<and> list_all (\<lambda>row. length row = 4) (affine img)
              \<and> det3 (\<lambda>x. x) (map (take 3) (take 3 (affine img))) \<noteq> 0
            \<longrightarrow> sample_point (\<lambda>x. x) img (voxel_to_physical (affine img) (i, j, k))
                = Inr [elem (get_data img) i j k])"
proof -
  have at_voxel: "sample_point r img q = Inr [elem (get_data img) i j k]"
    if "voxel_coordinates r (affine img) q = Inr [real i, real j, real k]" for r q
    using that dims map_coordinates_at_voxel [OF shp idx]
    by (simp add: sample_point_def shp)
  have exact: "voxel_coordinates (\<lambda>x. x) (affine img) (voxel_to_physical (affine img) (i, j, k))
        = Inr [real i, real j, real k]"
    if len: "length (affine img) = 4" and rows: "list_all (\<lambda>row. length row = 4) (affine img)"
      and dt: "det3 (\<lambda>x. x) (map (take 3) (take 3 (affine img))) \<noteq> 0"
  proof -
    from len obtain r0 r1 r2 r3 where aff: "affine img = [r0, r1, r2, r3]"
      by (auto simp: numeral_eq_Suc length_Suc_conv)
    from rows aff obtain a b c t0 where r0: "r0 = [a, b, c, t0]"
      by (auto simp: numeral_eq_Suc length_Suc_conv)
    from rows aff obtain d e f t1 where r1: "r1 = [d, e, f, t1]"
      by (auto simp: numeral_eq_Suc length_Suc_conv)
    from rows aff obtain g h m t2 where r2: "r2 = [g, h, m, t2]"
      by (auto simp: numeral_eq_Suc length_Suc_conv)
    have block: "map (take 3) (take 3 (affine img)) = [[a, b, c], [d, e, f], [g, h, m]]"
      by (simp add: aff r0 r1 r2)
    have phys: "voxel_to_physical (affine img) (i, j, k)
        = [a * real i + b * real j + c * real k + t0,
           d * real i + e * real j + f * real k + t1,
           g * real i + h * real j + m * real k + t2]"
      by (simp add: voxel_to_physical_def aff r0 r1 r2)
    have dt': "det3 (\<lambda>x. x) [[a, b, c], [d, e, f], [g, h, m]] \<noteq> 0"
      using dt by (simp add: block)
    show ?thesis
      unfolding phys
      by (rule voxel_coordinates_exact [OF _ dt', where last_row = r3])
        (simp add: aff r0 r1 r2)
  qed
  show ?thesis
    using at_voxel exact by blast
qed

theorem sample_point_round_trip_witness:
  "sample_point float64 example_volume [12, 20, 32] = Inr [5]
   \<and> sample_point (\<lambda>x. x) example_volume (voxel_to_physical (affine example_volume) (1, 0, 1))
       = Inr [5]"
proof -
  note t = sample_point_round_trip [where img = example_volume and ?n0.0 = 2 and ?n1.0 = 2
      and ?n2.0 = 2 and i = 1 and j = 0 and k = 1]
  have shp: "shape (get_data example_volume) = (2, 2, 2)"
    by (simp add: example_volume_def single_voxel_def)
  have v: "elem (get_data example_volume) 1 0 1 = 5"
    by (simp add: example_volume_def single_voxel_def)
  have c: "voxel_coordinates float64 (affine example_volume) [12, 20, 32]
      = Inr [real 1, real 0, real 1]"
    by code_simp
  have d: "det3 (\<lambda>x. x) (map (take 3) (take 3 (affine example_volume))) \<noteq> 0"
    by (simp add: example_volume_def det3_def)
  have a: "sample_point float64 example_volume [12, 20, 32] = Inr [5]"
    using t [where rnd = float64 and p = "[12, 20, 32]", THEN conjunct1] shp c v by simp
  have b: "sample_point (\<lambda>x. x) example_volume
      (voxel_to_physical (affine example_volume) (1, 0, 1)) = Inr [5]"
    using t [THEN conjunct2] shp d v by (simp add: example_volume_def)
  from a b show ?thesis by simp
qed

text \<open>
  The claim as stated is about the float64 program.  For four voxels of size 0.1 the
  physical-space position of the last voxel is 0.30000000000000004 in float64, the
  inverse of the size is 10, and the voxel coordinate computed is 3.0000000000000004:
  beyond the last index 3, so that the result is 0 and not the stored 5.
\<close>

theorem sample_point_misses_rounded_voxel:
  "voxel_coordinates float64 (affine tenth_volume)
       (map float64 (voxel_to_physical (affine tenth_volume) (3, 0, 0)))
     = Inr [6755399441055745 / 2251799813685248, 0, 0]
   \<and> sample_point float64 tenth_volume
       (map float64 (voxel_to_physical (affine tenth_volume) (3, 0, 0))) = Inr [0]
   \<and> elem (get_data tenth_volume) 3 0 0 = 5"
  by code_simp

end
